theory Spec2Isabelle
  imports Complex_Main "HOL-Library.Word" "HOL-Library.Sublist"
begin

section \<open>JavaScript strings\<close>

text \<open>
  A JavaScript string is a sequence of UTF-16 code units. The Cyrillic literals of the
  components are written out as their code units; ASCII literals go through \<open>ascii\<close>.
\<close>

type_synonym jsstring = "16 word list"

definition ascii :: "string \<Rightarrow> jsstring" where
  "ascii s = map of_char s"

text \<open>
  \<open>String.prototype.trim\<close> strips WhiteSpace and LineTerminator code points from both
  ends: TAB, LF, VT, FF, CR, SP, NBSP, U+1680, U+2000 to U+200A, LS, PS, U+202F, U+205F,
  U+3000 and the byte order mark U+FEFF.
\<close>

definition isWhiteSpace :: "16 word \<Rightarrow> bool" where
  "isWhiteSpace c \<longleftrightarrow>
     c \<in> {0x9, 0xA, 0xB, 0xC, 0xD, 0x20, 0xA0, 0x1680, 0x2028, 0x2029, 0x202F, 0x205F,
          0x3000, 0xFEFF}
     \<or> (0x2000 \<le> c \<and> c \<le> 0x200A)"

definition trim :: "jsstring \<Rightarrow> jsstring" where
  "trim s = rev (dropWhile isWhiteSpace (rev (dropWhile isWhiteSpace s)))"

text \<open>\<open>String.prototype.includes(pat)\<close>: \<open>pat\<close> occurs at some position of the string.\<close>

fun includes_str :: "jsstring \<Rightarrow> jsstring \<Rightarrow> bool" where
  "includes_str [] pat = (pat = [])"
| "includes_str (c # cs) pat = (prefix pat (c # cs) \<or> includes_str cs pat)"

section \<open>JavaScript values\<close>

text \<open>
  \<open>response.data\<close> is whatever the body parsed to (axios hands over the raw string
  when the body is not JSON), so the reply is extracted from an arbitrary value.
  A number only ever has its truthiness tested here.
\<close>

datatype jsnum = Fin rat | PosInf | NegInf | NaN

datatype jsval =
    JUndefined
  | JNull
  | JBool bool
  | JNum jsnum
  | JStr jsstring
  | JArr "jsval list"
  | JObj "(jsstring \<times> jsval) list"

datatype js_error = TypeError

fun truthy :: "jsval \<Rightarrow> bool" where
  "truthy JUndefined = False"
| "truthy JNull = False"
| "truthy (JBool b) = b"
| "truthy (JNum (Fin q)) = (q \<noteq> 0)"
| "truthy (JNum NaN) = False"
| "truthy (JNum PosInf) = True"
| "truthy (JNum NegInf) = True"
| "truthy (JStr s) = (s \<noteq> [])"
| "truthy (JArr xs) = True"
| "truthy (JObj kvs) = True"

definition nullish :: "jsval \<Rightarrow> bool" where
  "nullish v \<longleftrightarrow> v = JUndefined \<or> v = JNull"

text \<open>
  \<open>v?.name\<close> for a name that no built-in prototype defines (\<open>choices\<close>, \<open>message\<close>,
  \<open>content\<close>): \<open>undefined\<close> on a nullish receiver (the chain short-circuits), on a
  primitive and on an array, and on an object without that key.
\<close>

fun optProp :: "jsval \<Rightarrow> jsstring \<Rightarrow> jsval" where
  "optProp (JObj kvs) k = (case map_of kvs k of None \<Rightarrow> JUndefined | Some v \<Rightarrow> v)"
| "optProp v k = JUndefined"

text \<open>
  \<open>v?.[0]\<close>: the first element of an array, the first code unit of a string, the
  property \<open>"0"\<close> of an object, \<open>undefined\<close> otherwise.
\<close>

fun optIndex0 :: "jsval \<Rightarrow> jsval" where
  "optIndex0 (JArr xs) = (case xs of [] \<Rightarrow> JUndefined | x # _ \<Rightarrow> x)"
| "optIndex0 (JStr s) = (case s of [] \<Rightarrow> JUndefined | c # _ \<Rightarrow> JStr [c])"
| "optIndex0 (JObj kvs) = optProp (JObj kvs) (ascii ''0'')"
| "optIndex0 v = JUndefined"

text \<open>The same accesses without \<open>?.\<close>: reading a property of a nullish value throws.\<close>

definition getProp :: "jsval \<Rightarrow> jsstring \<Rightarrow> js_error + jsval" where
  "getProp v k = (if nullish v then Inl TypeError else Inr (optProp v k))"

definition getIndex0 :: "jsval \<Rightarrow> js_error + jsval" where
  "getIndex0 v = (if nullish v then Inl TypeError else Inr (optIndex0 v))"

text \<open>
  \<open>v.includes(pat)\<close> with a string argument: the substring test on a string,
  membership (SameValueZero, strings by value) on an array; any other value has no
  callable \<open>includes\<close> and the call throws.
\<close>

fun includesMethod :: "jsval \<Rightarrow> jsstring \<Rightarrow> js_error + bool" where
  "includesMethod (JStr s) pat = Inr (includes_str s pat)"
| "includesMethod (JArr xs) pat = Inr (List.member xs (JStr pat))"
| "includesMethod v pat = Inl TypeError"

section \<open>The data of AdvancedChatbot\<close>

text \<open>\<open>user\<close> is \<open>'\<close>U+0412 U+044B\<open>'\<close> (You) or \<open>'\<close>U+0411 U+043E U+0442\<open>'\<close> (Bot).\<close>

datatype author = You | Bot

datatype message_type = Default | Code | Error

text \<open>
  The interface declares \<open>text: string\<close>; the types are erased at run time and the
  assistant message stores whatever value the reply is, so the field holds a value.
  A user message has neither \<open>type\<close> nor \<open>reactions\<close>.
\<close>

record message =
  msg_id :: jsstring
  user :: author
  msg_text :: jsval
  timestamp :: int
  msg_type :: "message_type option"
  reactions :: "jsstring list option"

record chat_config =
  model :: jsstring
  temperature :: rat
  maxTokens :: int

definition Gemini :: jsstring where
  "Gemini = ascii ''google/gemini-pro''"

definition DeepSeek :: jsstring where
  "DeepSeek = ascii ''deepseek/deepseek-chat''"

text \<open>\<open>import.meta.env\<close>: variable name to value, \<open>None\<close> for a variable that is not set.\<close>

type_synonym env = "jsstring \<Rightarrow> jsstring option"

definition VITE_GEMINI_API_KEY :: jsstring where
  "VITE_GEMINI_API_KEY = ascii ''VITE_GEMINI_API_KEY''"

definition VITE_DEEPSEEKR1_API_KEY :: jsstring where
  "VITE_DEEPSEEKR1_API_KEY = ascii ''VITE_DEEPSEEKR1_API_KEY''"

definition getApiKey :: "env \<Rightarrow> jsstring \<Rightarrow> jsstring option" where
  "getApiKey e m =
     (if m = Gemini then e VITE_GEMINI_API_KEY
      else if m = DeepSeek then e VITE_DEEPSEEKR1_API_KEY
      else Some [])"

text \<open>The template literal \<open>`Bearer ${apiKey}`\<close>; \<open>undefined\<close> prints as its name.\<close>

definition bearer :: "jsstring option \<Rightarrow> jsstring" where
  "bearer k = ascii ''Bearer '' @ (case k of None \<Rightarrow> ascii ''undefined'' | Some s \<Rightarrow> s)"

record api_client =
  baseURL :: jsstring
  timeout_ms :: int
  authorization :: jsstring
  contentType :: jsstring

definition createApiClient :: "env \<Rightarrow> chat_config \<Rightarrow> api_client" where
  "createApiClient e cfg =
     \<lparr>baseURL = ascii ''https://openrouter.ai/api/v1/'',
      timeout_ms = 15000,
      authorization = bearer (getApiKey e (model cfg)),
      contentType = ascii ''application/json''\<rparr>"

text \<open>One \<open>api.post('chat/completions', body)\<close> that has not settled yet.\<close>

record request =
  client :: api_client
  path :: jsstring
  req_model :: jsstring
  req_messages :: "(jsstring \<times> jsstring) list"
  max_tokens :: int
  req_temperature :: rat

text \<open>
  What one message creation reads from the environment: the result of \<open>generateId()\<close>
  (built from the clock and the random generator) and the \<open>Date.now()\<close> of the
  \<open>timestamp\<close> field.
\<close>

record reads =
  newId :: jsstring
  now :: int

text \<open>
  The component's state hooks, and \<open>pending\<close>: the requests issued and not yet settled,
  oldest first.
\<close>

record chat_state =
  messages :: "message list"
  input :: jsstring
  isLoading :: bool
  config :: chat_config
  darkMode :: bool
  isTyping :: bool
  showEmojiPicker :: bool
  pending :: "request list"

definition initial :: chat_state where
  "initial =
     \<lparr>messages = [], input = [], isLoading = False,
      config = \<lparr>model = Gemini, temperature = 7 / 10, maxTokens = 300\<rparr>,
      darkMode = False, isTyping = False, showEmojiPicker = False, pending = []\<rparr>"

section \<open>AdvancedChatbot: sendMessage\<close>

text \<open>The fallback reply: U+041E U+0442 U+0432 U+0435 U+0442, U+043D U+0435,
  U+043F U+043E U+043B U+0443 U+0447 U+0435 U+043D and a full stop.\<close>

definition noReply :: jsstring where
  "noReply = [0x41E, 0x442, 0x432, 0x435, 0x442, 0x20, 0x43D, 0x435, 0x20, 0x43F, 0x43E,
     0x43B, 0x443, 0x447, 0x435, 0x43D, 0x2E]"

text \<open>The text of the error message: U+041E U+0448 U+0438 U+0431 U+043A U+0430,
  U+043F U+0440 U+0438, U+043F U+043E U+043B U+0443 U+0447 U+0435 U+043D U+0438 U+0438,
  U+043E U+0442 U+0432 U+0435 U+0442 U+0430 and a full stop.\<close>

definition replyError :: jsstring where
  "replyError = [0x41E, 0x448, 0x438, 0x431, 0x43A, 0x430, 0x20, 0x43F, 0x440, 0x438, 0x20,
     0x43F, 0x43E, 0x43B, 0x443, 0x447, 0x435, 0x43D, 0x438, 0x438, 0x20, 0x43E, 0x442,
     0x432, 0x435, 0x442, 0x430, 0x2E]"

text \<open>The code fence, three backquotes.\<close>

definition fence :: jsstring where
  "fence = [0x60, 0x60, 0x60]"

text \<open>\<open>response.data?.choices?.[0]?.message?.content\<close>\<close>

definition content_of :: "jsval \<Rightarrow> jsval" where
  "content_of d =
     optProp (optProp (optIndex0 (optProp d (ascii ''choices''))) (ascii ''message''))
       (ascii ''content'')"

text \<open>\<open>botReply = content || fallback\<close>\<close>

definition botReply :: "jsval \<Rightarrow> jsval" where
  "botReply d = (if truthy (content_of d) then content_of d else JStr noReply)"

text \<open>
  The object literal \<open>botMessage\<close>; its last field calls \<open>botReply.includes\<close>, which
  throws when the reply is neither a string nor an array.
\<close>

definition botMessage :: "reads \<Rightarrow> jsval \<Rightarrow> js_error + message" where
  "botMessage r d =
     (case includesMethod (botReply d) fence of
        Inl err \<Rightarrow> Inl err
      | Inr fenced \<Rightarrow>
          Inr \<lparr>msg_id = newId r, user = Bot, msg_text = botReply d, timestamp = now r,
               msg_type = Some (if fenced then Code else Default), reactions = None\<rparr>)"

definition errorMessage :: "reads \<Rightarrow> message" where
  "errorMessage r =
     \<lparr>msg_id = newId r, user = Bot, msg_text = JStr replyError, timestamp = now r,
      msg_type = Some Error, reactions = None\<rparr>"

definition userMessage :: "reads \<Rightarrow> jsstring \<Rightarrow> message" where
  "userMessage r trimmedInput =
     \<lparr>msg_id = newId r, user = You, msg_text = JStr trimmedInput, timestamp = now r,
      msg_type = None, reactions = None\<rparr>"

definition post :: "env \<Rightarrow> chat_config \<Rightarrow> jsstring \<Rightarrow> request" where
  "post e cfg trimmedInput =
     \<lparr>client = createApiClient e cfg,
      path = ascii ''chat/completions'',
      req_model = model cfg,
      req_messages = [(ascii ''user'', trimmedInput)],
      max_tokens = maxTokens cfg,
      req_temperature = temperature cfg\<rparr>"

text \<open>
  \<open>sendMessage\<close> up to its \<open>await\<close>: the early return on a blank input, the user
  message, the three state updates and the request, which joins \<open>pending\<close>.
\<close>

definition sendMessage :: "env \<Rightarrow> reads \<Rightarrow> chat_state \<Rightarrow> chat_state" where
  "sendMessage e r s =
     (let trimmedInput = trim (input s) in
      if \<not> truthy (JStr trimmedInput) then s
      else s\<lparr>messages := messages s @ [userMessage r trimmedInput],
             input := [],
             isLoading := True,
             isTyping := True,
             pending := pending s @ [post e (config s) trimmedInput]\<rparr>)"

text \<open>
  How the awaited request settles: axios resolves with the response of a 2xx status and
  rejects on a network error, on the timeout and on any other status.
\<close>

datatype failure = NetworkError | Timeout | HttpError nat

datatype outcome = Resolved jsval | Rejected failure

text \<open>
  \<open>sendMessage\<close> from the \<open>await\<close> on: the rest of the \<open>try\<close> block (reading \<open>rt\<close>),
  the \<open>catch\<close> block (reading \<open>rc\<close>) for a rejection or a throw, then \<open>finally\<close>.
  The updates are functional (\<open>prev => [...prev, m]\<close>), so they apply to the
  state at the time the request settles.
\<close>

definition sendMessage_resume :: "outcome \<Rightarrow> reads \<Rightarrow> reads \<Rightarrow> chat_state \<Rightarrow> chat_state" where
  "sendMessage_resume out rt rc s =
     (let s' =
        (case out of
           Resolved d \<Rightarrow>
             (case botMessage rt d of
                Inr m \<Rightarrow> s\<lparr>messages := messages s @ [m]\<rparr>
              | Inl err \<Rightarrow> s\<lparr>messages := messages s @ [errorMessage rc]\<rparr>)
         | Rejected f \<Rightarrow> s\<lparr>messages := messages s @ [errorMessage rc]\<rparr>)
      in s'\<lparr>isLoading := False, isTyping := False\<rparr>)"

section \<open>AdvancedChatbot: the events of the rendered component\<close>

definition handleKeyPress :: "env \<Rightarrow> jsstring \<Rightarrow> bool \<Rightarrow> reads \<Rightarrow> chat_state \<Rightarrow> chat_state" where
  "handleKeyPress e key shiftKey r s =
     (if key = ascii ''Enter'' \<and> \<not> shiftKey then sendMessage e r s else s)"

text \<open>The send button carries \<open>disabled={isLoading || !input.trim()}\<close>.\<close>

definition sendDisabled :: "chat_state \<Rightarrow> bool" where
  "sendDisabled s \<longleftrightarrow> isLoading s \<or> \<not> truthy (JStr (trim (input s)))"

definition handleEmojiSelect :: "jsstring \<Rightarrow> chat_state \<Rightarrow> chat_state" where
  "handleEmojiSelect native s = s\<lparr>input := input s @ native, showEmojiPicker := False\<rparr>"

text \<open>The clear button: \<open>onClick={() => setMessages([])}\<close>.\<close>

definition clear :: "chat_state \<Rightarrow> chat_state" where
  "clear s = s\<lparr>messages := []\<rparr>"

text \<open>The model selector: \<open>setConfig(prev => ({ ...prev, model: e.target.value }))\<close>.\<close>

definition selectModel :: "jsstring \<Rightarrow> chat_state \<Rightarrow> chat_state" where
  "selectModel m s = s\<lparr>config := (config s)\<lparr>model := m\<rparr>\<rparr>"

text \<open>
  The input field of this component is never disabled, so typing and key presses
  reach it at any time. \<open>Settle i\<close> is the \<open>i\<close>-th pending request settling.
\<close>

datatype event =
    Change jsstring
  | KeyPress jsstring bool reads
  | ClickSend reads
  | ClickClear
  | SelectModel jsstring
  | EmojiSelect jsstring
  | ToggleEmojiPicker
  | ToggleDarkMode
  | Settle nat outcome reads reads

fun step :: "env \<Rightarrow> chat_state \<Rightarrow> event \<Rightarrow> chat_state" where
  "step e s (Change v) = s\<lparr>input := v\<rparr>"
| "step e s (KeyPress key shiftKey r) = handleKeyPress e key shiftKey r s"
| "step e s (ClickSend r) = (if sendDisabled s then s else sendMessage e r s)"
| "step e s ClickClear = clear s"
| "step e s (SelectModel m) = selectModel m s"
| "step e s (EmojiSelect native) = handleEmojiSelect native s"
| "step e s ToggleEmojiPicker = s\<lparr>showEmojiPicker := \<not> showEmojiPicker s\<rparr>"
| "step e s ToggleDarkMode = s\<lparr>darkMode := \<not> darkMode s\<rparr>"
| "step e s (Settle i out rt rc) =
     (if i < length (pending s)
      then sendMessage_resume out rt rc
             (s\<lparr>pending := take i (pending s) @ drop (Suc i) (pending s)\<rparr>)
      else s)"

definition run :: "env \<Rightarrow> chat_state \<Rightarrow> event list \<Rightarrow> chat_state" where
  "run e s evs = foldl (step e) s evs"

section \<open>The plain Chatbot component\<close>

text \<open>
  \<open>components/Chatbot.tsx\<close>: messages are \<open>{user, text}\<close> only, the model is fixed and
  the credential is \<open>VITE_API_KEY\<close>. Its names carry the prefix \<open>Chatbot\<close> or \<open>cb\<close>.
\<close>

record plain_message =
  cb_user :: author
  cb_text :: jsval

record plain_request =
  cb_authorization :: jsstring
  cb_path :: jsstring
  cb_model :: jsstring
  cb_req_messages :: "(jsstring \<times> jsstring) list"

record chatbot_state =
  cb_messages :: "plain_message list"
  cb_input :: jsstring
  cb_isLoading :: bool
  cb_pending :: "plain_request list"

definition Chatbot_initial :: chatbot_state where
  "Chatbot_initial = \<lparr>cb_messages = [], cb_input = [], cb_isLoading = False, cb_pending = []\<rparr>"

text \<open>The text of its error message: U+041E U+0448 U+0438 U+0431 U+043A U+0430 and a colon,
  U+043D U+0435, U+0443 U+0434 U+0430 U+043B U+043E U+0441 U+044C,
  U+043F U+043E U+043B U+0443 U+0447 U+0438 U+0442 U+044C, U+043E U+0442 U+0432 U+0435 U+0442
  and a full stop.\<close>

definition Chatbot_replyError :: jsstring where
  "Chatbot_replyError = [0x41E, 0x448, 0x438, 0x431, 0x43A, 0x430, 0x3A, 0x20, 0x43D, 0x435,
     0x20, 0x443, 0x434, 0x430, 0x43B, 0x43E, 0x441, 0x44C, 0x20, 0x43F, 0x43E, 0x43B, 0x443,
     0x447, 0x438, 0x442, 0x44C, 0x20, 0x43E, 0x442, 0x432, 0x435, 0x442, 0x2E]"

text \<open>
  \<open>response.data?.choices[0].message.content || fallback\<close>: only \<open>data\<close> is guarded, a
  nullish \<open>data\<close> short-circuits the whole chain, and each later access throws on a
  nullish receiver.
\<close>

definition Chatbot_botReply :: "jsval \<Rightarrow> js_error + jsval" where
  "Chatbot_botReply d =
     (if nullish d then Inr (JStr noReply)
      else
        (case getIndex0 (optProp d (ascii ''choices'')) of
           Inl err \<Rightarrow> Inl err
         | Inr choice \<Rightarrow>
             (case getProp choice (ascii ''message'') of
                Inl err \<Rightarrow> Inl err
              | Inr msg \<Rightarrow>
                  (case getProp msg (ascii ''content'') of
                     Inl err \<Rightarrow> Inl err
                   | Inr c \<Rightarrow> Inr (if truthy c then c else JStr noReply)))))"

definition VITE_API_KEY :: jsstring where
  "VITE_API_KEY = ascii ''VITE_API_KEY''"

definition Chatbot_post :: "env \<Rightarrow> jsstring \<Rightarrow> plain_request" where
  "Chatbot_post e inp =
     \<lparr>cb_authorization = bearer (e VITE_API_KEY),
      cb_path = ascii ''chat/completions'',
      cb_model = ascii ''openai/gpt-3.5-turbo'',
      cb_req_messages = [(ascii ''user'', inp)]\<rparr>"

text \<open>\<open>sendMessage\<close> up to its \<open>await\<close>; the message and the request carry the untrimmed input.\<close>

definition Chatbot_sendMessage :: "env \<Rightarrow> chatbot_state \<Rightarrow> chatbot_state" where
  "Chatbot_sendMessage e s =
     (if \<not> truthy (JStr (trim (cb_input s))) then s
      else s\<lparr>cb_messages := cb_messages s @ [\<lparr>cb_user = You, cb_text = JStr (cb_input s)\<rparr>],
             cb_input := [],
             cb_isLoading := True,
             cb_pending := cb_pending s @ [Chatbot_post e (cb_input s)]\<rparr>)"

text \<open>\<open>sendMessage\<close> from the \<open>await\<close> on: rest of \<open>try\<close>, \<open>catch\<close>, \<open>finally\<close>.\<close>

definition Chatbot_sendMessage_resume :: "outcome \<Rightarrow> chatbot_state \<Rightarrow> chatbot_state" where
  "Chatbot_sendMessage_resume out s =
     (let failed = s\<lparr>cb_messages := cb_messages s @ [\<lparr>cb_user = Bot, cb_text = JStr Chatbot_replyError\<rparr>]\<rparr>;
          s' =
            (case out of
               Resolved d \<Rightarrow>
                 (case Chatbot_botReply d of
                    Inr reply \<Rightarrow> s\<lparr>cb_messages := cb_messages s @ [\<lparr>cb_user = Bot, cb_text = reply\<rparr>]\<rparr>
                  | Inl err \<Rightarrow> failed)
             | Rejected f \<Rightarrow> failed)
      in s'\<lparr>cb_isLoading := False\<rparr>)"

text \<open>Both the input field and the button carry \<open>disabled={isLoading}\<close>.\<close>

definition Chatbot_handleKeyPress :: "env \<Rightarrow> jsstring \<Rightarrow> bool \<Rightarrow> chatbot_state \<Rightarrow> chatbot_state" where
  "Chatbot_handleKeyPress e key shiftKey s =
     (if key = ascii ''Enter'' \<and> \<not> shiftKey then Chatbot_sendMessage e s else s)"

datatype chatbot_event =
    CbChange jsstring
  | CbKeyDown jsstring bool
  | CbClickSend
  | CbSettle nat outcome

fun Chatbot_step :: "env \<Rightarrow> chatbot_state \<Rightarrow> chatbot_event \<Rightarrow> chatbot_state" where
  "Chatbot_step e s (CbChange v) = (if cb_isLoading s then s else s\<lparr>cb_input := v\<rparr>)"
| "Chatbot_step e s (CbKeyDown key shiftKey) =
     (if cb_isLoading s then s else Chatbot_handleKeyPress e key shiftKey s)"
| "Chatbot_step e s CbClickSend = (if cb_isLoading s then s else Chatbot_sendMessage e s)"
| "Chatbot_step e s (CbSettle i out) =
     (if i < length (cb_pending s)
      then Chatbot_sendMessage_resume out
             (s\<lparr>cb_pending := take i (cb_pending s) @ drop (Suc i) (cb_pending s)\<rparr>)
      else s)"

section \<open>Sample data\<close>

text \<open>The success body the endpoint documents: \<open>{choices: [{message: {content: c}}]}\<close>.\<close>

definition completion_body :: "jsval \<Rightarrow> jsval" where
  "completion_body c =
     JObj [(ascii ''choices'', JArr [JObj [(ascii ''message'', JObj [(ascii ''content'', c)])]])]"

text \<open>An environment with both credentials set.\<close>

definition both_keys :: env where
  "both_keys = [VITE_GEMINI_API_KEY \<mapsto> ascii ''key-g'', VITE_DEEPSEEKR1_API_KEY \<mapsto> ascii ''key-d'']"

text \<open>The reads of one message creation with the clock at \<open>t\<close>.\<close>

definition at_time :: "int \<Rightarrow> reads" where
  "at_time t = \<lparr>newId = ascii ''msg_0_x'', now = t\<rparr>"

section \<open>Strings and values\<close>

lemma trim_Nil_iff: "trim s = [] \<longleftrightarrow> (\<forall>c\<in>set s. isWhiteSpace c)"
proof
  assume "trim s = []"
  then have all: "\<forall>x\<in>set (dropWhile isWhiteSpace s). isWhiteSpace x"
    by (simp add: trim_def dropWhile_eq_Nil_conv)
  have "dropWhile isWhiteSpace s = []"
  proof (rule ccontr)
    assume ne: "dropWhile isWhiteSpace s \<noteq> []"
    then have "\<not> isWhiteSpace (hd (dropWhile isWhiteSpace s))"
      by (rule hd_dropWhile)
    moreover have "hd (dropWhile isWhiteSpace s) \<in> set (dropWhile isWhiteSpace s)"
      using ne by simp
    ultimately show False
      using all by blast
  qed
  then show "\<forall>c\<in>set s. isWhiteSpace c"
    by simp
next
  assume "\<forall>c\<in>set s. isWhiteSpace c"
  then show "trim s = []"
    by (auto simp: trim_def dest: set_dropWhileD)
qed

text \<open>\<open>includes_str\<close> is the substring relation: \<open>s = ps @ pat @ ss\<close> for some \<open>ps\<close>, \<open>ss\<close>.\<close>

lemma includes_str_sublist: "includes_str s pat \<longleftrightarrow> sublist pat s"
  by (induction s) (auto simp: sublist_Cons_right)

lemma content_of_completion_body: "content_of (completion_body c) = c"
  by (simp add: content_of_def completion_body_def ascii_def)

lemma content_of_no_choices:
  "optProp d (ascii ''choices'') = JUndefined \<Longrightarrow> content_of d = JUndefined"
  by (simp add: content_of_def)

section \<open>The two halves of sendMessage\<close>

lemma sendMessage_blank: "trim (input s) = [] \<Longrightarrow> sendMessage e r s = s"
  by (simp add: sendMessage_def)

lemma sendMessage_nonblank:
  "trim (input s) \<noteq> [] \<Longrightarrow>
   sendMessage e r s =
     s\<lparr>messages := messages s @ [userMessage r (trim (input s))], input := [],
       isLoading := True, isTyping := True,
       pending := pending s @ [post e (config s) (trim (input s))]\<rparr>"
  by (simp add: sendMessage_def Let_def)

lemma handleKeyPress_Enter: "handleKeyPress e (ascii ''Enter'') False r s = sendMessage e r s"
  by (simp add: handleKeyPress_def)

lemma botReply_truthy: "truthy (botReply d)"
  by (simp add: botReply_def noReply_def)

lemma botMessage_falsy:
  "\<not> truthy (content_of d) \<Longrightarrow>
   botMessage r d =
     Inr \<lparr>msg_id = newId r, user = Bot, msg_text = JStr noReply, timestamp = now r,
          msg_type = Some Default, reactions = None\<rparr>"
  by (simp add: botMessage_def botReply_def noReply_def fence_def)

lemma botMessage_string:
  "content_of d = JStr t \<Longrightarrow> t \<noteq> [] \<Longrightarrow>
   botMessage r d =
     Inr \<lparr>msg_id = newId r, user = Bot, msg_text = JStr t, timestamp = now r,
          msg_type = Some (if sublist fence t then Code else Default), reactions = None\<rparr>"
  by (simp add: botMessage_def botReply_def includes_str_sublist)

lemma botMessage_Inr:
  assumes "botMessage r d = Inr m"
  shows "user m = Bot" and "timestamp m = now r" and "msg_id m = newId r"
    and "msg_text m = botReply d" and "msg_type m = Some Code \<or> msg_type m = Some Default"
  using assms by (auto simp: botMessage_def split: sum.splits if_splits)

lemma resume_resolved:
  "botMessage rt d = Inr m \<Longrightarrow>
   sendMessage_resume (Resolved d) rt rc s =
     s\<lparr>messages := messages s @ [m], isLoading := False, isTyping := False\<rparr>"
  by (simp add: sendMessage_resume_def)

lemma resume_thrown:
  "botMessage rt d = Inl err \<Longrightarrow>
   sendMessage_resume (Resolved d) rt rc s =
     s\<lparr>messages := messages s @ [errorMessage rc], isLoading := False, isTyping := False\<rparr>"
  by (simp add: sendMessage_resume_def)

text \<open>A reply that is neither a string nor an array makes the handling throw.\<close>

lemma handling_can_throw: "botMessage r (completion_body (JNum (Fin 5))) = Inl TypeError"
  by (simp add: botMessage_def botReply_def content_of_completion_body)

lemma resume_rejected:
  "sendMessage_resume (Rejected f) rt rc s =
     s\<lparr>messages := messages s @ [errorMessage rc], isLoading := False, isTyping := False\<rparr>"
  by (simp add: sendMessage_resume_def)

section \<open>One request at a time\<close>

text \<open>
  The button path is gated: a click while \<open>isLoading\<close> changes nothing. So is every
  submission path of the plain Chatbot, whose input field is disabled as well.
\<close>

lemma click_while_loading: "isLoading s \<Longrightarrow> step e s (ClickSend r) = s"
  by (simp add: sendDisabled_def)

lemma Chatbot_submit_while_loading:
  "cb_isLoading s \<Longrightarrow>
   Chatbot_step e s (CbKeyDown key shiftKey) = s \<and> Chatbot_step e s CbClickSend = s"
  by simp

text \<open>
  The Enter path of AdvancedChatbot is not: \<open>handleKeyPress\<close> calls \<open>sendMessage\<close>, which
  never looks at \<open>isLoading\<close>, and the input field accepts text while a request is pending.
\<close>

lemma enter_ignores_isLoading:
  "trim (input s) \<noteq> [] \<Longrightarrow>
   length (pending (step e s (KeyPress (ascii ''Enter'') False r))) = Suc (length (pending s))"
  by (simp add: handleKeyPress_Enter sendMessage_nonblank)

text \<open>
  Claim C1 (at most one request outstanding: while \<open>isLoading\<close> holds no submission path
  starts a second request). The code at the failing input: the user types \<open>a\<close> and
  presses Enter, types \<open>b\<close> and presses Enter again before the first request settles.
  Before the second key press \<open>isLoading\<close> is true with one request pending; after it
  two requests are pending.
\<close>

theorem C1_second_request_while_loading:
  "isLoading (run Map.empty initial
       [Change (ascii ''a''), KeyPress (ascii ''Enter'') False (at_time 1000),
        Change (ascii ''b'')])
   \<and> length (pending (run Map.empty initial
       [Change (ascii ''a''), KeyPress (ascii ''Enter'') False (at_time 1000),
        Change (ascii ''b'')])) = 1
   \<and> length (pending (run Map.empty initial
       [Change (ascii ''a''), KeyPress (ascii ''Enter'') False (at_time 1000),
        Change (ascii ''b''), KeyPress (ascii ''Enter'') False (at_time 1500)])) = 2"
  by (simp add: run_def initial_def handleKeyPress_def sendMessage_def trim_def
      isWhiteSpace_def ascii_def Let_def)

section \<open>The awaiting flag is released\<close>

text \<open>
  Claim C2: however the request settles (a response, a rejection of any kind, or a throw
  while the response is handled), \<open>isLoading\<close> is false afterwards, in both components.
\<close>

theorem C2_loading_released:
  "isLoading (sendMessage_resume out rt rc s) = False
   \<and> cb_isLoading (Chatbot_sendMessage_resume out s') = False"
  by (simp add: sendMessage_resume_def Chatbot_sendMessage_resume_def Let_def
      split: outcome.splits sum.splits)

section \<open>A successful exchange\<close>

text \<open>
  Claim C3, as the code has it: a submission by Enter followed by the resolution of its
  request, whose handling does not throw, appends exactly two messages, the user's and
  then the assistant's. The user message carries the clock reading of the submission and
  the assistant message the reading taken when the reply is handled, so the second
  timestamp is strictly greater exactly when the clock advanced between the two readings.
\<close>

theorem C3_two_messages_appended:
  assumes "trim (input s) \<noteq> []" and "botMessage rt d = Inr b"
  shows "messages (run e s [KeyPress (ascii ''Enter'') False r,
                            Settle (length (pending s)) (Resolved d) rt rc])
           = messages s @ [userMessage r (trim (input s)), b]
         \<and> user (userMessage r (trim (input s))) = You \<and> user b = Bot
         \<and> timestamp (userMessage r (trim (input s))) = now r \<and> timestamp b = now rt
         \<and> (timestamp (userMessage r (trim (input s))) < timestamp b \<longleftrightarrow> now r < now rt)"
proof -
  have "messages (step e (sendMessage e r s) (Settle (length (pending s)) (Resolved d) rt rc))
          = messages s @ [userMessage r (trim (input s)), b]"
    using assms by (simp add: sendMessage_nonblank resume_resolved)
  then have "messages (run e s [KeyPress (ascii ''Enter'') False r,
                                Settle (length (pending s)) (Resolved d) rt rc])
          = messages s @ [userMessage r (trim (input s)), b]"
    by (simp add: run_def handleKeyPress_Enter)
  moreover have "user b = Bot" "timestamp b = now rt"
    using assms(2) by (rule botMessage_Inr)+
  ultimately show ?thesis
    by (simp add: userMessage_def)
qed

theorem C3_two_messages_appended_witness:
  "trim (input (initial\<lparr>input := ascii '' hi ''\<rparr>)) \<noteq> []
   \<and> botMessage (at_time 1200) (completion_body (JStr (ascii ''Hello'')))
       = Inr \<lparr>msg_id = newId (at_time 1200), user = Bot, msg_text = JStr (ascii ''Hello''),
              timestamp = 1200, msg_type = Some Default, reactions = None\<rparr>
   \<and> map timestamp (messages (run both_keys (initial\<lparr>input := ascii '' hi ''\<rparr>)
        [KeyPress (ascii ''Enter'') False (at_time 1000),
         Settle 0 (Resolved (completion_body (JStr (ascii ''Hello'')))) (at_time 1200) (at_time 1201)]))
       = [1000, 1200]
   \<and> map msg_text (messages (run both_keys (initial\<lparr>input := ascii '' hi ''\<rparr>)
        [KeyPress (ascii ''Enter'') False (at_time 1000),
         Settle 0 (Resolved (completion_body (JStr (ascii ''Hello'')))) (at_time 1200) (at_time 1201)]))
       = [JStr (ascii ''hi''), JStr (ascii ''Hello'')]"
proof -
  have blank: "trim (ascii '' hi '') = ascii ''hi''"
    by (simp add: trim_def isWhiteSpace_def ascii_def)
  then have h1: "trim (input (initial\<lparr>input := ascii '' hi ''\<rparr>)) \<noteq> []"
    by (simp add: ascii_def)
  have h2: "botMessage (at_time 1200) (completion_body (JStr (ascii ''Hello'')))
       = Inr \<lparr>msg_id = newId (at_time 1200), user = Bot, msg_text = JStr (ascii ''Hello''),
              timestamp = 1200, msg_type = Some Default, reactions = None\<rparr>"
    by (simp add: botMessage_def botReply_def content_of_completion_body fence_def ascii_def
        at_time_def)
  have p0: "pending initial = []"
    by (simp add: initial_def)
  have m0: "messages initial = []"
    by (simp add: initial_def)
  show ?thesis
    using C3_two_messages_appended [OF h1 h2, of both_keys "at_time 1000" "at_time 1201"] h1 h2
    by (simp add: p0 m0 blank userMessage_def at_time_def)
qed

text \<open>
  The claim as stated asks for a strictly greater timestamp in every successful exchange.
  \<open>Date.now()\<close> counts milliseconds: when the reply is handled within the millisecond
  of the submission, both messages carry the same timestamp.
\<close>

theorem C3_same_millisecond:
  "\<exists>u b. messages (run both_keys (initial\<lparr>input := ascii ''hi''\<rparr>)
        [KeyPress (ascii ''Enter'') False (at_time 1000),
         Settle 0 (Resolved (completion_body (JStr (ascii ''Hello'')))) (at_time 1000) (at_time 1000)])
      = messages (initial\<lparr>input := ascii ''hi''\<rparr>) @ [u, b]
    \<and> user u = You \<and> user b = Bot \<and> \<not> timestamp u < timestamp b"
  by (simp add: run_def initial_def handleKeyPress_def sendMessage_def trim_def isWhiteSpace_def
      sendMessage_resume_def botMessage_def botReply_def content_of_completion_body fence_def
      userMessage_def at_time_def ascii_def Let_def)

section \<open>The reply text\<close>

lemma optProp_defined: "optProp v k \<noteq> JUndefined \<Longrightarrow> \<not> nullish v"
  by (cases v) (simp_all add: nullish_def)

lemma optIndex0_defined: "optIndex0 v \<noteq> JUndefined \<Longrightarrow> \<not> nullish v"
  by (cases v) (simp_all add: nullish_def)

text \<open>Where the guarded chain finds a non-empty string, the unguarded chain of the plain
  Chatbot finds the same string and does not throw.\<close>

lemma Chatbot_botReply_string:
  assumes "content_of d = JStr t" and "t \<noteq> []"
  shows "Chatbot_botReply d = Inr (JStr t)"
proof -
  let ?choices = "optProp d (ascii ''choices'')"
  let ?choice = "optIndex0 ?choices"
  let ?msg = "optProp ?choice (ascii ''message'')"
  have c: "optProp ?msg (ascii ''content'') = JStr t"
    using assms(1) by (simp add: content_of_def)
  then have m: "\<not> nullish ?msg"
    by (intro optProp_defined [of ?msg "ascii ''content''"]) simp
  then have "?msg \<noteq> JUndefined"
    by (simp add: nullish_def)
  then have ch: "\<not> nullish ?choice"
    by (rule optProp_defined)
  then have "?choice \<noteq> JUndefined"
    by (simp add: nullish_def)
  then have chs: "\<not> nullish ?choices"
    by (rule optIndex0_defined)
  then have "?choices \<noteq> JUndefined"
    by (simp add: nullish_def)
  then have d: "\<not> nullish d"
    by (rule optProp_defined)
  show ?thesis
    using c m ch chs d assms(2) by (simp add: Chatbot_botReply_def getIndex0_def getProp_def)
qed

lemma Chatbot_botReply_falsy:
  "\<not> truthy c \<Longrightarrow> Chatbot_botReply (completion_body c) = Inr (JStr noReply)"
  by (simp add: Chatbot_botReply_def completion_body_def getIndex0_def getProp_def nullish_def
      ascii_def)

text \<open>
  The unguarded chain throws on a body without \<open>choices\<close>, and the plain Chatbot then
  shows its error text instead of the fallback.
\<close>

lemma Chatbot_missing_choices_throws:
  "Chatbot_botReply (JObj []) = Inl TypeError
   \<and> cb_messages (Chatbot_sendMessage_resume (Resolved (JObj [])) Chatbot_initial)
       = [\<lparr>cb_user = Bot, cb_text = JStr Chatbot_replyError\<rparr>]"
  by (simp add: Chatbot_botReply_def Chatbot_sendMessage_resume_def Chatbot_initial_def
      getIndex0_def nullish_def Let_def)

text \<open>
  Claim C4, as the code has it: when the response resolves and \<open>content\<close> is a non-empty
  string, the appended assistant message carries that string (in both components); when
  \<open>content\<close> is absent or holds any falsy value, AdvancedChatbot appends the fallback
  string, and the message is not of kind Error. The plain Chatbot does the same for a
  falsy \<open>content\<close> inside a body of the documented shape.
\<close>

theorem C4_reply_text:
  "(content_of d = JStr t \<and> t \<noteq> [] \<longrightarrow>
      (\<exists>m. messages (sendMessage_resume (Resolved d) rt rc s) = messages s @ [m]
           \<and> user m = Bot \<and> msg_text m = JStr t \<and> msg_type m \<noteq> Some Error)
      \<and> cb_messages (Chatbot_sendMessage_resume (Resolved d) s')
           = cb_messages s' @ [\<lparr>cb_user = Bot, cb_text = JStr t\<rparr>])
   \<and> (\<not> truthy (content_of d) \<longrightarrow>
      (\<exists>m. messages (sendMessage_resume (Resolved d) rt rc s) = messages s @ [m]
           \<and> user m = Bot \<and> msg_text m = JStr noReply \<and> msg_type m \<noteq> Some Error))
   \<and> (\<not> truthy c \<longrightarrow>
      cb_messages (Chatbot_sendMessage_resume (Resolved (completion_body c)) s')
        = cb_messages s' @ [\<lparr>cb_user = Bot, cb_text = JStr noReply\<rparr>])"
  by (simp add: botMessage_string botMessage_falsy resume_resolved Chatbot_botReply_string
      Chatbot_botReply_falsy Chatbot_sendMessage_resume_def)

theorem C4_reply_text_witness:
  "content_of (completion_body (JStr (ascii ''Hello''))) = JStr (ascii ''Hello'')
   \<and> map msg_text (messages (sendMessage_resume
         (Resolved (completion_body (JStr (ascii ''Hello'')))) (at_time 5) (at_time 6) initial))
       = [JStr (ascii ''Hello'')]
   \<and> map cb_text (cb_messages (Chatbot_sendMessage_resume
         (Resolved (completion_body (JStr (ascii ''Hello'')))) Chatbot_initial))
       = [JStr (ascii ''Hello'')]
   \<and> content_of (JObj []) = JUndefined
   \<and> map msg_text (messages (sendMessage_resume (Resolved (JObj [])) (at_time 5) (at_time 6) initial))
       = [JStr noReply]
   \<and> map cb_text (cb_messages (Chatbot_sendMessage_resume
         (Resolved (completion_body JNull)) Chatbot_initial))
       = [JStr noReply]"
proof -
  have c1: "content_of (completion_body (JStr (ascii ''Hello''))) = JStr (ascii ''Hello'')"
    by (rule content_of_completion_body)
  have c2: "content_of (JObj []) = JUndefined"
    by (simp add: content_of_def)
  have ne: "ascii ''Hello'' \<noteq> []"
    by (simp add: ascii_def)
  have m0: "messages initial = []" "cb_messages Chatbot_initial = []"
    by (simp_all add: initial_def Chatbot_initial_def)
  show ?thesis
    using C4_reply_text [of "completion_body (JStr (ascii ''Hello''))" "ascii ''Hello''"
        "at_time 5" "at_time 6" initial Chatbot_initial JNull]
      C4_reply_text [of "JObj []" "[]" "at_time 5" "at_time 6" initial Chatbot_initial JNull]
    by (auto simp: c1 c2 ne m0)
qed

text \<open>
  The claim as stated promises the content whenever the field is present. An empty
  string is present and falsy: the message carries the fallback, not the content.
\<close>

theorem C4_empty_content_replaced:
  "content_of (completion_body (JStr [])) = JStr []
   \<and> map msg_text (messages (sendMessage_resume
         (Resolved (completion_body (JStr []))) (at_time 5) (at_time 6) initial))
       = [JStr noReply]
   \<and> JStr noReply \<noteq> content_of (completion_body (JStr []))"
  by (simp add: content_of_completion_body botMessage_falsy resume_resolved initial_def
      noReply_def)

text \<open>
  Claim C9: a \<open>content\<close> that is present but empty, and more generally any falsy
  \<open>content\<close>, yields an assistant message whose text is the fallback string, which is
  not the empty string.
\<close>

theorem C9_falsy_content_gets_fallback:
  "(content_of d = JStr [] \<or> \<not> truthy (content_of d)) \<longrightarrow>
     messages (sendMessage_resume (Resolved d) rt rc s)
       = messages s @ [\<lparr>msg_id = newId rt, user = Bot, msg_text = JStr noReply,
                         timestamp = now rt, msg_type = Some Default, reactions = None\<rparr>]
     \<and> JStr noReply \<noteq> JStr []"
proof -
  have "\<not> truthy (content_of d)" if "content_of d = JStr [] \<or> \<not> truthy (content_of d)"
    using that by auto
  then show ?thesis
    by (simp add: botMessage_falsy resume_resolved noReply_def)
qed

theorem C9_falsy_content_gets_fallback_witness:
  "content_of (completion_body (JStr [])) = JStr []
   \<and> map msg_text (messages (sendMessage_resume (Resolved (completion_body (JStr [])))
         (at_time 5) (at_time 6) initial)) = [JStr noReply]
   \<and> \<not> truthy (content_of (completion_body (JNum (Fin 0))))
   \<and> map msg_text (messages (sendMessage_resume (Resolved (completion_body (JNum (Fin 0))))
         (at_time 5) (at_time 6) initial)) = [JStr noReply]"
proof -
  have m0: "messages initial = []"
    by (simp add: initial_def)
  show ?thesis
    using C9_falsy_content_gets_fallback [of "completion_body (JStr [])" "at_time 5" "at_time 6" initial]
      C9_falsy_content_gets_fallback [of "completion_body (JNum (Fin 0))" "at_time 5" "at_time 6" initial]
    by (simp add: content_of_completion_body m0)
qed

section \<open>The kind of the assistant message\<close>

text \<open>
  Claim C10: when the handling of a response does not throw, the appended assistant
  message is of kind Code or Default, never Error, and for a reply text \<open>t\<close> it is Code
  exactly when the fence occurs in \<open>t\<close> as a substring.
\<close>

theorem C10_kind_on_success:
  assumes "botMessage rt d = Inr m"
  shows "messages (sendMessage_resume (Resolved d) rt rc s) = messages s @ [m]
         \<and> msg_type m \<noteq> Some Error
         \<and> (msg_type m = Some Code \<or> msg_type m = Some Default)
         \<and> (\<forall>t. msg_text m = JStr t \<longrightarrow> (msg_type m = Some Code \<longleftrightarrow> sublist fence t))"
proof -
  have kinds: "msg_type m = Some Code \<or> msg_type m = Some Default"
    using assms by (rule botMessage_Inr)
  have "msg_type m = Some Code \<longleftrightarrow> sublist fence t" if "msg_text m = JStr t" for t
  proof -
    have "botReply d = JStr t"
      using assms that botMessage_Inr(4) by metis
    then show ?thesis
      using assms by (auto simp: botMessage_def includes_str_sublist split: if_splits)
  qed
  then show ?thesis
    using kinds assms by (auto simp: resume_resolved)
qed

theorem C10_kind_on_success_witness:
  "map (\<lambda>m. (msg_text m, msg_type m)) (messages (sendMessage_resume
       (Resolved (completion_body (JStr (ascii ''see ```x```'')))) (at_time 5) (at_time 6) initial))
     = [(JStr (ascii ''see ```x```''), Some Code)]
   \<and> sublist fence (ascii ''see ```x```'')
   \<and> map (\<lambda>m. (msg_text m, msg_type m)) (messages (sendMessage_resume
       (Resolved (completion_body (JStr (ascii ''Hello'')))) (at_time 5) (at_time 6) initial))
     = [(JStr (ascii ''Hello''), Some Default)]
   \<and> \<not> sublist fence (ascii ''Hello'')"
proof -
  have m0: "messages initial = []"
    by (simp add: initial_def)
  have f1: "sublist fence (ascii ''see ```x```'')"
    by (simp add: includes_str_sublist [symmetric] fence_def ascii_def)
  have f2: "\<not> sublist fence (ascii ''Hello'')"
    by (simp add: includes_str_sublist [symmetric] fence_def ascii_def)
  have b1: "botMessage (at_time 5) (completion_body (JStr (ascii ''see ```x```'')))
      = Inr \<lparr>msg_id = newId (at_time 5), user = Bot, msg_text = JStr (ascii ''see ```x```''),
             timestamp = now (at_time 5), msg_type = Some Code, reactions = None\<rparr>"
    using f1 by (simp add: botMessage_string content_of_completion_body ascii_def)
  have b2: "botMessage (at_time 5) (completion_body (JStr (ascii ''Hello'')))
      = Inr \<lparr>msg_id = newId (at_time 5), user = Bot, msg_text = JStr (ascii ''Hello''),
             timestamp = now (at_time 5), msg_type = Some Default, reactions = None\<rparr>"
    using f2 by (simp add: botMessage_string content_of_completion_body ascii_def)
  show ?thesis
    using C10_kind_on_success [OF b1, of "at_time 6" initial]
      C10_kind_on_success [OF b2, of "at_time 6" initial] f1 f2
    by (simp add: m0)
qed

section \<open>A failed exchange\<close>

text \<open>
  Claim C5: when the request is rejected (network error, timeout or a status outside 2xx)
  the stored messages stay as they are and exactly one message is appended, authored by
  the assistant and of kind Error; the failure is absorbed into the returned state. The
  plain Chatbot, whose messages have no kind, appends its fixed error text.
\<close>

theorem C5_failure_appends_error:
  "messages (sendMessage_resume (Rejected f) rt rc s) = messages s @ [errorMessage rc]
   \<and> user (errorMessage rc) = Bot \<and> msg_type (errorMessage rc) = Some Error
   \<and> cb_messages (Chatbot_sendMessage_resume (Rejected f) s')
       = cb_messages s' @ [\<lparr>cb_user = Bot, cb_text = JStr Chatbot_replyError\<rparr>]"
  by (simp add: resume_rejected errorMessage_def Chatbot_sendMessage_resume_def Let_def)

section \<open>Blank submissions\<close>

text \<open>
  Claim C6: when the input is empty or holds only whitespace, \<open>sendMessage\<close>, a key
  press and a click on the send button all leave the whole state as it is, in both
  components: no message is appended and no request joins the pending ones.
\<close>

theorem C6_blank_input_suppressed:
  "((\<forall>c\<in>set (input s). isWhiteSpace c) \<longrightarrow>
      sendMessage e r s = s \<and> step e s (KeyPress key shiftKey r) = s
      \<and> step e s (ClickSend r) = s)
   \<and> ((\<forall>c\<in>set (cb_input s'). isWhiteSpace c) \<longrightarrow>
      Chatbot_sendMessage e s' = s' \<and> Chatbot_step e s' (CbKeyDown key shiftKey) = s'
      \<and> Chatbot_step e s' CbClickSend = s')"
proof -
  have "trim (input s) = []" if "\<forall>c\<in>set (input s). isWhiteSpace c"
    using that by (simp only: trim_Nil_iff)
  moreover have "trim (cb_input s') = []" if "\<forall>c\<in>set (cb_input s'). isWhiteSpace c"
    using that by (simp only: trim_Nil_iff)
  ultimately show ?thesis
    by (auto simp: sendMessage_blank handleKeyPress_def Chatbot_sendMessage_def
        Chatbot_handleKeyPress_def)
qed

theorem C6_blank_input_suppressed_witness:
  "list_all isWhiteSpace (input (initial\<lparr>input := [0x20, 0x9, 0xA0]\<rparr>))
   \<and> list_all isWhiteSpace (cb_input (Chatbot_initial\<lparr>cb_input := [0x20, 0x20]\<rparr>))
   \<and> step both_keys (initial\<lparr>input := [0x20, 0x9, 0xA0]\<rparr>) (KeyPress (ascii ''Enter'') False (at_time 7))
       = initial\<lparr>input := [0x20, 0x9, 0xA0]\<rparr>
   \<and> pending (step both_keys (initial\<lparr>input := [0x20, 0x9, 0xA0]\<rparr>) (ClickSend (at_time 7))) = []
   \<and> Chatbot_step both_keys (Chatbot_initial\<lparr>cb_input := [0x20, 0x20]\<rparr>) CbClickSend
       = Chatbot_initial\<lparr>cb_input := [0x20, 0x20]\<rparr>"
proof -
  have w1: "\<forall>c\<in>set (input (initial\<lparr>input := [0x20, 0x9, 0xA0]\<rparr>)). isWhiteSpace c"
    by (simp add: isWhiteSpace_def)
  have w2: "\<forall>c\<in>set (cb_input (Chatbot_initial\<lparr>cb_input := [0x20, 0x20]\<rparr>)). isWhiteSpace c"
    by (simp add: isWhiteSpace_def)
  have p0: "pending initial = []"
    by (simp add: initial_def)
  show ?thesis
    using C6_blank_input_suppressed [of "initial\<lparr>input := [0x20, 0x9, 0xA0]\<rparr>" both_keys
        "at_time 7" "ascii ''Enter''" False "Chatbot_initial\<lparr>cb_input := [0x20, 0x20]\<rparr>"] w1 w2
    by (simp add: p0)
qed

section \<open>Clearing the conversation\<close>

text \<open>
  Claim C7, as the code has it: from every state the clear button yields an empty message
  sequence, and it changes nothing else: the input, \<open>isLoading\<close>, \<open>isTyping\<close>, the
  configuration and the pending requests stay as they were.
\<close>

theorem C7_clear_empties_messages:
  "step e s ClickClear = clear s
   \<and> messages (clear s) = []
   \<and> input (clear s) = input s \<and> isLoading (clear s) = isLoading s
   \<and> isTyping (clear s) = isTyping s \<and> config (clear s) = config s
   \<and> pending (clear s) = pending s"
  by (simp add: clear_def)

text \<open>
  The claim as stated has clear reset the awaiting flag and the draft text. After a
  submission and some more typing, clearing empties the messages while \<open>isLoading\<close>
  stays true and the typed text stays in the input.
\<close>

theorem C7_flags_survive_clear:
  "isLoading (run Map.empty initial
       [Change (ascii ''hi''), KeyPress (ascii ''Enter'') False (at_time 1000),
        Change (ascii ''x''), ClickClear]) = True
   \<and> input (run Map.empty initial
       [Change (ascii ''hi''), KeyPress (ascii ''Enter'') False (at_time 1000),
        Change (ascii ''x''), ClickClear]) = ascii ''x''
   \<and> messages (run Map.empty initial
       [Change (ascii ''hi''), KeyPress (ascii ''Enter'') False (at_time 1000),
        Change (ascii ''x''), ClickClear]) = []"
  by (simp add: run_def initial_def handleKeyPress_def sendMessage_def trim_def
      isWhiteSpace_def clear_def ascii_def Let_def)

section \<open>The credential follows the model\<close>

text \<open>
  Claim C8: each of the two listed models reads its own environment variable, any other
  model gets the empty credential, selecting a model leaves the stored messages as they
  are, and the request of the next submission carries the selected model and the
  credential looked up for it.
\<close>

theorem C8_credential_follows_model:
  "getApiKey e Gemini = e VITE_GEMINI_API_KEY
   \<and> getApiKey e DeepSeek = e VITE_DEEPSEEKR1_API_KEY
   \<and> Gemini \<noteq> DeepSeek
   \<and> VITE_GEMINI_API_KEY \<noteq> VITE_DEEPSEEKR1_API_KEY
   \<and> (m \<noteq> Gemini \<and> m \<noteq> DeepSeek \<longrightarrow> getApiKey e m = Some [])
   \<and> messages (selectModel m s) = messages s
   \<and> (trim (input s) \<noteq> [] \<longrightarrow>
        (\<exists>q. pending (sendMessage e r (selectModel m s)) = pending s @ [q]
           \<and> req_model q = m \<and> authorization (client q) = bearer (getApiKey e m)))"
proof -
  have models: "Gemini \<noteq> DeepSeek"
    by (simp add: Gemini_def DeepSeek_def ascii_def)
  have keys: "VITE_GEMINI_API_KEY \<noteq> VITE_DEEPSEEKR1_API_KEY"
    by (simp add: VITE_GEMINI_API_KEY_def VITE_DEEPSEEKR1_API_KEY_def ascii_def)
  have lookup: "getApiKey e Gemini = e VITE_GEMINI_API_KEY"
    "getApiKey e DeepSeek = e VITE_DEEPSEEKR1_API_KEY"
    "m \<noteq> Gemini \<and> m \<noteq> DeepSeek \<longrightarrow> getApiKey e m = Some []"
    using models by (simp_all add: getApiKey_def)
  have kept: "messages (selectModel m s) = messages s"
    by (simp add: selectModel_def)
  have "trim (input (selectModel m s)) = trim (input s)"
    by (simp add: selectModel_def)
  then have sent: "trim (input s) \<noteq> [] \<longrightarrow>
        (\<exists>q. pending (sendMessage e r (selectModel m s)) = pending s @ [q]
           \<and> req_model q = m \<and> authorization (client q) = bearer (getApiKey e m))"
    by (simp add: sendMessage_nonblank) (simp add: selectModel_def post_def createApiClient_def)
  show ?thesis
    using models keys lookup kept sent by blast
qed

theorem C8_credential_follows_model_witness:
  "trim (input (initial\<lparr>input := ascii ''hi''\<rparr>)) \<noteq> []
   \<and> map (\<lambda>q. authorization (client q))
        (pending (sendMessage both_keys (at_time 1) (selectModel Gemini (initial\<lparr>input := ascii ''hi''\<rparr>))))
       = [ascii ''Bearer key-g'']
   \<and> map (\<lambda>q. authorization (client q))
        (pending (sendMessage both_keys (at_time 1) (selectModel DeepSeek (initial\<lparr>input := ascii ''hi''\<rparr>))))
       = [ascii ''Bearer key-d'']
   \<and> ascii ''openai/gpt-4'' \<noteq> Gemini \<and> ascii ''openai/gpt-4'' \<noteq> DeepSeek
   \<and> getApiKey both_keys (ascii ''openai/gpt-4'') = Some []"
proof -
  have h: "trim (input (initial\<lparr>input := ascii ''hi''\<rparr>)) \<noteq> []"
    by (simp add: trim_def isWhiteSpace_def ascii_def)
  have other: "ascii ''openai/gpt-4'' \<noteq> Gemini \<and> ascii ''openai/gpt-4'' \<noteq> DeepSeek"
    by (simp add: Gemini_def DeepSeek_def ascii_def)
  have p0: "pending initial = []"
    by (simp add: initial_def)
  have g: "bearer (both_keys VITE_GEMINI_API_KEY) = ascii ''Bearer key-g''"
    by (simp add: both_keys_def bearer_def VITE_GEMINI_API_KEY_def VITE_DEEPSEEKR1_API_KEY_def
        ascii_def)
  have d: "bearer (both_keys VITE_DEEPSEEKR1_API_KEY) = ascii ''Bearer key-d''"
    by (simp add: both_keys_def bearer_def ascii_def)
  show ?thesis
    using C8_credential_follows_model [of both_keys Gemini "initial\<lparr>input := ascii ''hi''\<rparr>" "at_time 1"]
      C8_credential_follows_model [of both_keys DeepSeek "initial\<lparr>input := ascii ''hi''\<rparr>" "at_time 1"]
      C8_credential_follows_model [of both_keys "ascii ''openai/gpt-4''" "initial\<lparr>input := ascii ''hi''\<rparr>" "at_time 1"]
      h other
    by (auto simp: p0 g d)
qed

end
